theory Spec2Isabelle
  imports Complex_Main "HOL-Library.Sublist"
begin

section \<open>Data model\<close>

text \<open>
  The dashboard is a single script, \<^verbatim>\<open>main.py\<close>, over pandas data frames. A time stamp
  is a calendar day, counted in days since 1970-01-01. Numbers are idealised as reals:
  an \<^verbatim>\<open>int64\<close> or \<^verbatim>\<open>float64\<close> cell is the real number it denotes, and rounding of
  floating-point arithmetic and the infinities are not modelled.
\<close>

type_synonym timestamp = int

text \<open>
  A cell of a value column: \<^verbatim>\<open>NaN\<close>/\<^verbatim>\<open>None\<close>, a number, or a string
  (a column of dtype \<^verbatim>\<open>object\<close> may mix them).
\<close>

datatype cell = Null | Num real | Text string

text \<open>
  A row of the two-column frame \<^verbatim>\<open>forecast_data\<close>: the pair of its \<^verbatim>\<open>ds\<close> cell
  (\<open>None\<close> is \<^verbatim>\<open>NaT\<close>) and its \<^verbatim>\<open>y\<close> cell. The frame is the list of its rows, in
  row order.
\<close>

type_synonym point = "timestamp option \<times> cell"
type_synonym series = "point list"

text \<open>The exceptions of the script. \<open>OtherException\<close> is any other instance of
  Python's \<^verbatim>\<open>Exception\<close> raised inside a library, with its message.\<close>

datatype py_exception =
    KeyError string
  | IndexError
  | ZeroDivisionError
  | TypeError string
  | OtherException string

section \<open>Sanitization of the forecast series\<close>

text \<open>
  \<^verbatim>\<open>
  forecast_data = forecast_data.dropna(subset=['ds', 'y']).copy()
  forecast_data['y'] = pd.to_numeric(forecast_data['y'], errors='coerce').fillna(0).astype(float)
  \<close>
  \<^verbatim>\<open>dropna\<close> keeps the rows whose \<^verbatim>\<open>ds\<close> and \<^verbatim>\<open>y\<close> are both non-null, in their
  order. \<^verbatim>\<open>to_numeric\<close> with \<^verbatim>\<open>errors='coerce'\<close> turns a string that does not parse
  into \<^verbatim>\<open>NaN\<close>; the parser of numeric strings is a parameter (a string such as
  \<^verbatim>\<open>"nan"\<close> parses to \<^verbatim>\<open>NaN\<close>, which is \<open>None\<close> here). \<^verbatim>\<open>fillna(0)\<close> replaces
  every \<^verbatim>\<open>NaN\<close> by 0, and \<^verbatim>\<open>astype(float)\<close> leaves a number the number it is.
\<close>

definition notna :: "point \<Rightarrow> bool" where
  "notna p = (fst p \<noteq> None \<and> snd p \<noteq> Null)"

definition dropna :: "series \<Rightarrow> series" where
  "dropna s = filter notna s"

fun to_numeric :: "(string \<Rightarrow> real option) \<Rightarrow> cell \<Rightarrow> cell" where
  "to_numeric parse Null = Null"
| "to_numeric parse (Num r) = Num r"
| "to_numeric parse (Text w) = (case parse w of None \<Rightarrow> Null | Some r \<Rightarrow> Num r)"

fun fillna :: "real \<Rightarrow> cell \<Rightarrow> cell" where
  "fillna d Null = Num d"
| "fillna d (Num r) = Num r"
| "fillna d (Text w) = Text w"

definition coerce_y :: "(string \<Rightarrow> real option) \<Rightarrow> point \<Rightarrow> point" where
  "coerce_y parse p = (fst p, fillna 0 (to_numeric parse (snd p)))"

definition sanitize :: "(string \<Rightarrow> real option) \<Rightarrow> series \<Rightarrow> series" where
  "sanitize parse s = map (coerce_y parse) (dropna s)"

text \<open>The time stamps of the rows that have one, in row order.\<close>

definition stamps :: "series \<Rightarrow> timestamp list" where
  "stamps s = List.map_filter fst s"

definition is_number :: "cell \<Rightarrow> bool" where
  "is_number c = (case c of Num r \<Rightarrow> True | _ \<Rightarrow> False)"

section \<open>Series extraction\<close>

text \<open>
  A column of a data frame, by dtype: time stamps (\<open>None\<close> is \<^verbatim>\<open>NaT\<close>), numbers
  (\<open>None\<close> is \<^verbatim>\<open>NaN\<close>) or strings. A data frame is the list of its named columns,
  all of one length; a name is looked up with \<open>map_of\<close>, the names being distinct.
\<close>

datatype column =
    Datetimes "timestamp option list"
  | Numbers "real option list"
  | Objects "string option list"

type_synonym dataframe = "(string \<times> column) list"

text \<open>
  \<^verbatim>\<open>
  @st.cache_data
  def get_forecast_data(data, forecast_metric):
      df = data.groupby('Week')[forecast_metric].sum().reset_index()
      df = df.rename(columns={'Week': 'ds', forecast_metric: 'y'})
      return df
  \<close>
  \<^verbatim>\<open>groupby\<close> (with its defaults \<^verbatim>\<open>sort=True\<close>, \<^verbatim>\<open>dropna=True\<close>) makes one group
  per distinct non-null key, the keys in ascending order; \<^verbatim>\<open>sum\<close> adds the non-\<^verbatim>\<open>NaN\<close>
  values of a group (0 when there is none). The rows handed to it are the pairs of the
  key cell and the metric cell. A missing column raises \<^verbatim>\<open>KeyError\<close>, the key column
  first (\<^verbatim>\<open>KeyError: 'Week'\<close>, then \<^verbatim>\<open>KeyError: 'Column not found: ...'\<close>). The dashboard only ever groups a datetime column and sums a numeric one; what
  pandas does on other dtypes is not modelled, and the model answers \<open>TypeError\<close>
  there.
\<close>

definition bucket_keys :: "(timestamp option \<times> real option) list \<Rightarrow> timestamp list" where
  "bucket_keys rows = sort (remdups (List.map_filter fst rows))"

definition bucket_sum :: "(timestamp option \<times> real option) list \<Rightarrow> timestamp \<Rightarrow> real" where
  "bucket_sum rows k = sum_list (List.map_filter snd (filter (\<lambda>r. fst r = Some k) rows))"

definition groupby_sum :: "(timestamp option \<times> real option) list \<Rightarrow> (timestamp \<times> real) list" where
  "groupby_sum rows = map (\<lambda>k. (k, bucket_sum rows k)) (bucket_keys rows)"

definition get_forecast_data :: "dataframe \<Rightarrow> string \<Rightarrow> py_exception + series" where
  "get_forecast_data data forecast_metric =
     (case map_of data ''Week'' of
        None \<Rightarrow> Inl (KeyError ''Week'')
      | Some week \<Rightarrow>
          (case map_of data forecast_metric of
             None \<Rightarrow> Inl (KeyError (''Column not found: '' @ forecast_metric))
           | Some metric \<Rightarrow>
               (case (week, metric) of
                  (Datetimes ws, Numbers vs) \<Rightarrow>
                    Inr (map (\<lambda>(k, total). (Some k, Num total)) (groupby_sum (zip ws vs)))
                | _ \<Rightarrow> Inl (TypeError ''dtype''))))"

section \<open>The forecasting section of the script\<close>

text \<open>
  \<^verbatim>\<open>pd.date_range(start=..., periods=n, freq='W')\<close>: \<open>n\<close> Sundays, a week apart,
  from the first Sunday on or after the start day (1970-01-01 was a Thursday).
\<close>

definition next_sunday :: "timestamp \<Rightarrow> timestamp" where
  "next_sunday d = d + (- (d + 4)) mod 7"

definition date_range_W :: "timestamp \<Rightarrow> nat \<Rightarrow> timestamp list" where
  "date_range_W start periods = map (\<lambda>i. next_sunday start + 7 * int i) [0..<periods]"

text \<open>
  The frame of the \<^verbatim>\<open>DEBUG\<close> metric. Its argument is what
  \<^verbatim>\<open>np.random.randint(1000, 5000, 24)\<close> returned; 2023-01-01 is day 19358.
  \<^verbatim>\<open>
  forecast_data = pd.DataFrame({
      'ds': pd.date_range(start='2023-01-01', periods=24, freq='W'),
      'y': np.random.randint(1000, 5000, 24)
  })
  \<close>
\<close>

definition debug_forecast_data :: "int list \<Rightarrow> series" where
  "debug_forecast_data randint =
     zip (map Some (date_range_W 19358 24)) (map (\<lambda>v. Num (of_int v)) randint)"

definition select_forecast_data :: "int list \<Rightarrow> string \<Rightarrow> dataframe \<Rightarrow> py_exception + series" where
  "select_forecast_data randint forecast_metric data =
     (if forecast_metric = ''DEBUG'' then Inr (debug_forecast_data randint)
      else get_forecast_data data forecast_metric)"

text \<open>
  \<^verbatim>\<open>forecast_data['y'].sum()\<close>: the sum of the numbers of the column, \<^verbatim>\<open>NaN\<close>
  skipped. The column is \<^verbatim>\<open>float64\<close> wherever the script sums it
  (\<^verbatim>\<open>astype(float)\<close> comes first), so no string is met there.
\<close>

definition y_value :: "point \<Rightarrow> real" where
  "y_value p = (case snd p of Num v \<Rightarrow> v | _ \<Rightarrow> 0)"

definition y_sum :: "series \<Rightarrow> real" where
  "y_sum s = sum_list (map y_value s)"

text \<open>
  \<^verbatim>\<open>forecast_data.empty or 'y' not in forecast_data.columns or forecast_data['y'].sum() == 0\<close>;
  a series always has its \<^verbatim>\<open>y\<close> column.
\<close>

definition no_valid_data :: "series \<Rightarrow> bool" where
  "no_valid_data forecast_data = (forecast_data = [] \<or> y_sum forecast_data = 0)"

text \<open>The messages, with the UTF-8 bytes of their signs.\<close>

definition warning_sign :: string where
  "warning_sign = [CHR 0xE2, CHR 0x9A, CHR 0xA0, CHR 0xEF, CHR 0xB8, CHR 0x8F]"

definition quoted :: "string \<Rightarrow> string" where
  "quoted w = [CHR 0x27] @ w @ [CHR 0x27]"

definition warning_first :: "string \<Rightarrow> string" where
  "warning_first forecast_metric =
     warning_sign @ '' No valid data available for forecasting '' @ quoted forecast_metric
       @ ''. Try selecting a different metric or adjust filters.''"

definition warning_second :: "string \<Rightarrow> string" where
  "warning_second forecast_metric =
     warning_sign @ '' No valid data available for forecasting '' @ quoted forecast_metric
       @ ''. Try DEBUG or adjust filters.''"

definition warning_third :: "string \<Rightarrow> string" where
  "warning_third forecast_metric =
     warning_sign @ '' No data available to forecast '' @ quoted forecast_metric
       @ ''. Try DEBUG mode or adjust filters.''"

text \<open>\<^verbatim>\<open>f"{e}"\<close>: the text of an exception (a \<^verbatim>\<open>KeyError\<close> prints its key quoted).\<close>

definition exception_str :: "py_exception \<Rightarrow> string" where
  "exception_str e =
     (case e of
        KeyError k \<Rightarrow> quoted k
      | IndexError \<Rightarrow> ''single positional indexer is out-of-bounds''
      | ZeroDivisionError \<Rightarrow> ''division by zero''
      | TypeError m \<Rightarrow> m
      | OtherException m \<Rightarrow> m)"

definition forecasting_failed :: "py_exception \<Rightarrow> string" where
  "forecasting_failed e = warning_sign @ '' Forecasting failed: '' @ exception_str e"

text \<open>
  What the script shows and calls, in order. \<open>Train_call\<close> records a call of
  \<^verbatim>\<open>train_forecast_model\<close> with its argument.
\<close>

datatype chart = Line_Chart | Bar_Chart

type_synonym forecast = "(timestamp \<times> real) list"

datatype figure =
    Line forecast string series
  | Bar forecast string

datatype event =
    St_warning string
  | St_info string
  | St_write_preview series
  | St_write_shape nat nat
  | Train_call series
  | St_markdown string
  | St_plotly_chart figure
  | St_error string
  | St_code string

text \<open>
  The libraries the section calls, as parameters: the decorated
  \<^verbatim>\<open>train_forecast_model\<close>, NeuralProphet's \<^verbatim>\<open>make_future_dataframe\<close> and
  \<^verbatim>\<open>predict\<close>, the drawing of a figure (\<open>None\<close> when it is drawn, else what was
  raised) and \<^verbatim>\<open>traceback.format_exc\<close>. Each may return or raise an instance of
  \<^verbatim>\<open>Exception\<close>; signals outside that class (\<^verbatim>\<open>KeyboardInterrupt\<close>,
  \<^verbatim>\<open>SystemExit\<close>) are not modelled.
\<close>

record 'm library =
  train_model :: "series \<Rightarrow> py_exception + 'm"
  make_future_dataframe :: "'m \<Rightarrow> series \<Rightarrow> nat \<Rightarrow> py_exception + series"
  predict :: "'m \<Rightarrow> series \<Rightarrow> py_exception + forecast"
  plotly_chart :: "figure \<Rightarrow> py_exception option"
  format_exc :: "py_exception \<Rightarrow> string"

text \<open>
  A block of statements yields what it showed and, when it raised, the exception.
  \<^verbatim>\<open>try: body except Exception as e: handler\<close> runs the handler on what the body
  raised.
\<close>

type_synonym block = "event list \<times> py_exception option"

definition try_except :: "block \<Rightarrow> (py_exception \<Rightarrow> block) \<Rightarrow> block" where
  "try_except body handler =
     (case snd body of
        None \<Rightarrow> body
      | Some e \<Rightarrow> (fst body @ fst (handler e), snd (handler e)))"

definition forecast_figure :: "chart \<Rightarrow> string \<Rightarrow> forecast \<Rightarrow> series \<Rightarrow> figure" where
  "forecast_figure chart_type_forecast forecast_metric forecast forecast_data =
     (if chart_type_forecast = Line_Chart
      then Line forecast (forecast_metric @ '' Forecast'') forecast_data
      else Bar forecast (forecast_metric @ '' Forecast (Bar)''))"

text \<open>
  \<^verbatim>\<open>
  model = train_forecast_model(forecast_data)
  future = model.make_future_dataframe(forecast_data, periods=8)
  forecast = model.predict(future)
  \<close>
\<close>

definition train_and_predict :: "'m library \<Rightarrow> series \<Rightarrow> event list \<times> (py_exception + forecast)" where
  "train_and_predict lib forecast_data =
     ([Train_call forecast_data],
      (case train_model lib forecast_data of
         Inl e \<Rightarrow> Inl e
       | Inr model \<Rightarrow>
           (case make_future_dataframe lib model forecast_data 8 of
              Inl e \<Rightarrow> Inl e
            | Inr future \<Rightarrow> predict lib model future)))"

definition forecasting_output :: "'m library \<Rightarrow> chart \<Rightarrow> string \<Rightarrow> series \<Rightarrow> block" where
  "forecasting_output lib chart_type_forecast forecast_metric forecast_data =
     (case train_and_predict lib forecast_data of
        (evs, Inl e) \<Rightarrow> (evs, Some e)
      | (evs, Inr forecast) \<Rightarrow>
          (let fig = forecast_figure chart_type_forecast forecast_metric forecast forecast_data;
               heading = St_markdown (''## '' @ [CHR 0xF0, CHR 0x9F, CHR 0x94, CHR 0xAE] @ '' Forecasting Output'')
           in case plotly_chart lib fig of
                Some e \<Rightarrow> (evs @ [heading], Some e)
              | None \<Rightarrow> (evs @ [heading, St_plotly_chart fig], None)))"

definition forecasting_again :: "'m library \<Rightarrow> series \<Rightarrow> block" where
  "forecasting_again lib forecast_data =
     (case train_and_predict lib forecast_data of
        (evs, Inl e) \<Rightarrow> (evs, Some e)
      | (evs, Inr forecast) \<Rightarrow> (evs, None))"

definition report_failure :: "'m library \<Rightarrow> py_exception \<Rightarrow> block" where
  "report_failure lib e = ([St_error (forecasting_failed e), St_code (format_exc lib e)], None)"

text \<open>
  Lines 625 to 710. The frame is built and cleaned twice, each time followed by the
  validity check and \<^verbatim>\<open>st.stop()\<close>; then come the first \<^verbatim>\<open>try\<close> block, the check once
  more, and the second \<^verbatim>\<open>try\<close> block, whose \<^verbatim>\<open>train_forecast_model\<close> is a second
  decorated function (\<open>lib'\<close>). \<open>randint\<close> and \<open>randint'\<close> are the two draws of the
  \<^verbatim>\<open>DEBUG\<close> frame. The section ends completed, stopped by \<^verbatim>\<open>st.stop()\<close>, or with
  an exception that leaves it.
\<close>

datatype outcome = Completed | Stopped | Raised py_exception

definition forecast_section ::
  "(string \<Rightarrow> real option) \<Rightarrow> 'm library \<Rightarrow> 'm library \<Rightarrow> int list \<Rightarrow> int list \<Rightarrow> chart \<Rightarrow> string
     \<Rightarrow> dataframe \<Rightarrow> event list \<times> outcome" where
  "forecast_section parse lib lib' randint randint' chart_type_forecast forecast_metric data =
     (case select_forecast_data randint forecast_metric data of
        Inl e \<Rightarrow> ([], Raised e)
      | Inr raw \<Rightarrow>
          if no_valid_data (sanitize parse raw)
          then ([St_warning (warning_first forecast_metric)], Stopped)
          else
            (case select_forecast_data randint' forecast_metric data of
               Inl e \<Rightarrow> ([], Raised e)
             | Inr raw' \<Rightarrow>
                 (let forecast_data = sanitize parse raw';
                      shown = [St_write_preview (take 5 forecast_data),
                               St_write_shape (length forecast_data) 2]
                  in if no_valid_data forecast_data
                     then (shown @ [St_warning (warning_second forecast_metric)], Stopped)
                     else
                       (case try_except
                               (forecasting_output lib chart_type_forecast forecast_metric forecast_data)
                               (report_failure lib) of
                          (evs, Some e) \<Rightarrow> (shown @ evs, Raised e)
                        | (evs, None) \<Rightarrow>
                            if no_valid_data forecast_data
                            then (shown @ evs @ [St_warning (warning_third forecast_metric)], Stopped)
                            else
                              (case try_except (forecasting_again lib' forecast_data)
                                      (report_failure lib') of
                                 (evs', Some e) \<Rightarrow> (shown @ evs @ evs', Raised e)
                               | (evs', None) \<Rightarrow> (shown @ evs @ evs', Completed))))))"

section \<open>The model cache\<close>

text \<open>
  \<^verbatim>\<open>
  @st.cache_resource
  def train_forecast_model(forecast_data):
      model = NeuralProphet(n_changepoints=10, yearly_seasonality=False, weekly_seasonality=True)
      model.fit(forecast_data, freq='W')
      return model
  \<close>
  The body builds a model with fixed settings and fits it; the fit itself is a parameter.
\<close>

record hyperparameters =
  n_changepoints :: nat
  yearly_seasonality :: bool
  weekly_seasonality :: bool
  freq :: string

definition fixed_hyperparameters :: hyperparameters where
  "fixed_hyperparameters =
     \<lparr>n_changepoints = 10, yearly_seasonality = False, weekly_seasonality = True, freq = ''W''\<rparr>"

definition fit_model ::
  "(hyperparameters \<Rightarrow> series \<Rightarrow> py_exception + 'm) \<Rightarrow> series \<Rightarrow> py_exception + 'm" where
  "fit_model fit forecast_data = fit fixed_hyperparameters forecast_data"

text \<open>
  Modelled from the spec: the state of the Forecast Model Cache, which
  \<^verbatim>\<open>st.cache_resource\<close> keeps inside Streamlit. It is a mapping from keys to trained
  models, with structural equality of keys, and the spec's training-call counter.
\<close>

record ('k, 'm) cache =
  entries :: "('k \<times> 'm) list"
  trainings :: nat

text \<open>
  Modelled from the spec: the decorator \<^verbatim>\<open>st.cache_resource\<close> is Streamlit's and its
  code is not part of the repository. By the spec's contract of the Forecast Model Cache,
  a request whose key is stored returns the stored model without training; any other
  request is a miss and trains; the model is stored under its key unless training failed
  (a failure stores nothing, so the next request with that key trains again).
\<close>

definition cache_resource ::
  "('k \<Rightarrow> py_exception + 'm) \<Rightarrow> 'k \<Rightarrow> ('k, 'm) cache \<Rightarrow> (py_exception + 'm) \<times> ('k, 'm) cache" where
  "cache_resource f k c =
     (case map_of (entries c) k of
        Some m \<Rightarrow> (Inr m, c)
      | None \<Rightarrow>
          (case f k of
             Inl e \<Rightarrow> (Inl e, c\<lparr>trainings := Suc (trainings c)\<rparr>)
           | Inr m \<Rightarrow> (Inr m, c\<lparr>entries := (k, m) # entries c, trainings := Suc (trainings c)\<rparr>)))"

text \<open>The decorated function: the cache around the body.\<close>

definition train_forecast_model ::
  "(hyperparameters \<Rightarrow> series \<Rightarrow> py_exception + 'm) \<Rightarrow> series \<Rightarrow> (series, 'm) cache
     \<Rightarrow> (py_exception + 'm) \<times> (series, 'm) cache" where
  "train_forecast_model fit = cache_resource (fit_model fit)"

definition empty_cache :: "('k, 'm) cache" where
  "empty_cache = \<lparr>entries = [], trainings = 0\<rparr>"

section \<open>The data loader\<close>

text \<open>
  The world outside \<^verbatim>\<open>load_hr_data\<close>: the HTTP request with the decoding of its answer
  into a frame (\<^verbatim>\<open>requests.get\<close>, \<^verbatim>\<open>raise_for_status\<close>, \<^verbatim>\<open>response.json\<close>,
  \<^verbatim>\<open>pd.DataFrame\<close>), \<^verbatim>\<open>os.path.exists\<close> and \<^verbatim>\<open>pd.read_csv\<close> with the columns
  to parse as dates.
\<close>

record request =
  url :: string
  authorization :: string
  timeout :: nat

record world =
  http_get :: "request \<Rightarrow> py_exception + dataframe"
  path_exists :: "string \<Rightarrow> bool"
  read_csv :: "string \<Rightarrow> string list \<Rightarrow> py_exception + dataframe"

definition hr_request :: request where
  "hr_request =
     \<lparr>url = ''https://api.sensehr.io/employees'', authorization = ''Bearer YOUR_API_KEY'',
      timeout = 10\<rparr>"

text \<open>
  The built-in table. Its dates are the month ends that
  \<^verbatim>\<open>pd.date_range(start="2023-01-01", periods=4, freq="3M")\<close>,
  \<^verbatim>\<open>pd.date_range("2022-11-01", periods=4, freq="2M")\<close> and
  \<^verbatim>\<open>pd.date_range("2023-01-01", periods=4, freq="2M")\<close> give, as day numbers.
\<close>

definition dummy_hr_data :: dataframe where
  "dummy_hr_data =
     [(''Employee Name'', Objects [Some ''Alice'', Some ''Bob'', Some ''Charlie'', Some ''Diana'']),
      (''Department'', Objects (replicate 4 (Some ''HR''))),
      (''Joining Date'', Datetimes [Some 19388, Some 19477, Some 19569, Some 19661]),
      (''Status'', Objects [Some ''Active'', Some ''Active'', Some ''On Leave'', Some ''Resigned'']),
      (''Engagement Score'', Numbers [Some 78, Some 82, Some 75, Some 80]),
      (''Training Effectiveness'', Numbers [Some 76, Some 80, Some 79, Some 77]),
      (''Performance Rating'', Numbers [Some 85, Some 90, Some 80, Some 78]),
      (''Hiring Cost'', Numbers [Some 4000, Some 5000, Some 6000, Some 5500]),
      (''Internal Moves'', Numbers [Some 1, Some 0, Some 0, Some 1]),
      (''Overtime Hours'', Numbers [Some 10, Some 5, Some 12, Some 0]),
      (''Application Status'', Objects [Some ''Accepted'', Some ''Offered'', Some ''Accepted'', Some ''Rejected'']),
      (''Gender'', Objects [Some ''Female'', Some ''Male'', Some ''Female'', Some ''Male'']),
      (''Application Date'', Datetimes [Some 19326, Some 19388, Some 19447, Some 19508]),
      (''Hire Date'', Datetimes [Some 19388, Some 19447, Some 19508, Some 19569])]"

definition column_length :: "column \<Rightarrow> nat" where
  "column_length c =
     (case c of Datetimes xs \<Rightarrow> length xs | Numbers xs \<Rightarrow> length xs | Objects xs \<Rightarrow> length xs)"

definition could_not_load :: "py_exception \<Rightarrow> string" where
  "could_not_load e =
     warning_sign @ '' Could not load data from API. Reason: '' @ exception_str e"

text \<open>
  \<^verbatim>\<open>
  try:
      response = requests.get(url, headers=headers, timeout=10)
      response.raise_for_status()
      data = response.json()
      return pd.DataFrame(data)
  except Exception as e:
      st.warning(f"... Could not load data from API. Reason: {e}")
      if os.path.exists("mock_sensehr_data.csv"):
          st.info("... Using local mock HR data.")
          return pd.read_csv("mock_sensehr_data.csv",
                             parse_dates=["Joining Date", "Hire Date", "Application Date"])
      st.info("... Using built-in dummy HR data.")
      return pd.DataFrame({...})
  \<close>
  The result is what was shown and the frame returned, or the exception that left the
  function.
\<close>

definition load_hr_data :: "world \<Rightarrow> event list \<times> (py_exception + dataframe)" where
  "load_hr_data w =
     (case http_get w hr_request of
        Inr frame \<Rightarrow> ([], Inr frame)
      | Inl e \<Rightarrow>
          if path_exists w ''mock_sensehr_data.csv''
          then ([St_warning (could_not_load e),
                 St_info ([CHR 0xF0, CHR 0x9F, CHR 0x93, CHR 0x84] @ '' Using local mock HR data.'')],
                read_csv w ''mock_sensehr_data.csv''
                  [''Joining Date'', ''Hire Date'', ''Application Date''])
          else ([St_warning (could_not_load e),
                 St_info ([CHR 0xF0, CHR 0x9F, CHR 0x93, CHR 0xA6] @ '' Using built-in dummy HR data.'')],
                Inr dummy_hr_data))"

section \<open>Week-over-week ratios\<close>

text \<open>
  \<^verbatim>\<open>Series.iloc[i]\<close>: positional read, a negative position counting from the end,
  \<^verbatim>\<open>IndexError\<close> out of range. \<open>truediv\<close> is the division \<^verbatim>\<open>/\<close>; the model records a
  division whose divisor is zero as \<open>ZeroDivisionError\<close>.
\<close>

definition iloc :: "real list \<Rightarrow> int \<Rightarrow> py_exception + real" where
  "iloc column i =
     (if 0 \<le> i \<and> i < int (length column) then Inr (column ! nat i)
      else if i < 0 \<and> - int (length column) \<le> i then Inr (column ! nat (int (length column) + i))
      else Inl IndexError)"

definition truediv :: "real \<Rightarrow> real \<Rightarrow> py_exception + real" where
  "truediv a b = (if b = 0 then Inl ZeroDivisionError else Inr (a / b))"

text \<open>
  The first two statements of \<^verbatim>\<open>display_metric_with_target\<close>, on the column
  \<^verbatim>\<open>data[metric]\<close> (which has \<^verbatim>\<open>len(data)\<close> numbers):
  \<^verbatim>\<open>
  current = data[metric].iloc[-1]
  previous = data[metric].iloc[-2] if len(data) > 1 else current
  \<close>
\<close>

definition current_value :: "real list \<Rightarrow> py_exception + real" where
  "current_value column = iloc column (- 1)"

definition previous_value :: "real list \<Rightarrow> py_exception + real" where
  "previous_value column =
     (case current_value column of
        Inl e \<Rightarrow> Inl e
      | Inr current \<Rightarrow> if length column > 1 then iloc column (- 2) else Inr current)"

text \<open>
  \<^verbatim>\<open>previous and (change / previous > 0.25)\<close>: the division is evaluated only when
  \<^verbatim>\<open>previous\<close> is truthy, that is, not zero.
\<close>

definition ratio_test :: "real \<Rightarrow> real \<Rightarrow> (real \<Rightarrow> bool) \<Rightarrow> py_exception + bool" where
  "ratio_test previous change test =
     (if previous = 0 then Inr False
      else (case truediv change previous of Inl e \<Rightarrow> Inl e | Inr r \<Rightarrow> Inr (test r)))"

definition spike :: string where
  "spike = [CHR 0xF0, CHR 0x9F, CHR 0x93, CHR 0x8D] @ '' Spike''"

definition drop_alert :: string where
  "drop_alert = warning_sign @ '' Drop''"

definition alert_of :: "real \<Rightarrow> real \<Rightarrow> py_exception + string" where
  "alert_of previous change =
     (case ratio_test previous change (\<lambda>r. r > 0.25) of
        Inl e \<Rightarrow> Inl e
      | Inr True \<Rightarrow> Inr spike
      | Inr False \<Rightarrow>
          (case ratio_test previous change (\<lambda>r. r < - 0.25) of
             Inl e \<Rightarrow> Inl e
           | Inr True \<Rightarrow> Inr drop_alert
           | Inr False \<Rightarrow> Inr []))"

text \<open>\<^verbatim>\<open>int(x)\<close> truncates towards zero.\<close>

definition int_of :: "real \<Rightarrow> int" where
  "int_of x = (if 0 \<le> x then \<lfloor>x\<rfloor> else \<lceil>x\<rceil>)"

text \<open>
  The card handed to \<^verbatim>\<open>col.metric\<close>: its label, \<^verbatim>\<open>int(current)\<close> and, for a metric
  that has a target, the target and the delta.
  \<^verbatim>\<open>
  change = current - previous
  alert = "... Spike" if previous and (change / previous > 0.25) else \
          "... Drop" if previous and (change / previous < -0.25) else ""
  if metric in st.session_state.targets:
      delta = float(current - st.session_state.targets[metric])
      col.metric(f"{label} {alert}", f"{int(current)} / {st.session_state.targets[metric]}", delta=delta)
  else:
      col.metric(f"{label} {alert}", int(current))
  \<close>
\<close>

datatype card = Card string int "(int \<times> real) option"

definition display_metric_with_target ::
  "real list \<Rightarrow> (string \<times> int) list \<Rightarrow> string \<Rightarrow> string \<Rightarrow> py_exception + card" where
  "display_metric_with_target column targets metric label =
     (case current_value column of
        Inl e \<Rightarrow> Inl e
      | Inr current \<Rightarrow>
          (case previous_value column of
             Inl e \<Rightarrow> Inl e
           | Inr previous \<Rightarrow>
               (case alert_of previous (current - previous) of
                  Inl e \<Rightarrow> Inl e
                | Inr alert \<Rightarrow>
                    Inr (Card (label @ '' '' @ alert) (int_of current)
                           (case map_of targets metric of
                              None \<Rightarrow> None
                            | Some target \<Rightarrow> Some (target, current - of_int target))))))"

text \<open>
  \<^verbatim>\<open>round(x, 1)\<close>, on the reals: to the nearest tenth, a tie to the even one.
\<close>

definition round_half_even :: "real \<Rightarrow> int" where
  "round_half_even x =
     (let f = \<lfloor>x\<rfloor>; d = x - of_int f
      in if d < 1 / 2 then f else if 1 / 2 < d then f + 1 else if even f then f else f + 1)"

definition round1 :: "real \<Rightarrow> real" where
  "round1 x = of_int (round_half_even (x * 10)) / 10"

text \<open>
  One turn of the loop of the executive summary, on the column \<^verbatim>\<open>data[metric]\<close>; the
  line it appends is kept as its parts: the metric, the direction and \<^verbatim>\<open>abs(pct)\<close>.
  \<^verbatim>\<open>
  if len(data) > 1:
      prev_value = data[metric].iloc[-2]
      diff = data[metric].iloc[-1] - prev_value
      pct = round((diff / prev_value) * 100, 1) if prev_value else 0
      direction = "increased" if diff > 0 else "decreased"
      summaries.append(f"{metric} {direction} by {abs(pct)}% compared to last week.")
  \<close>
\<close>

definition percent_change :: "real \<Rightarrow> real \<Rightarrow> py_exception + real" where
  "percent_change diff prev_value =
     (if prev_value \<noteq> 0
      then (case truediv diff prev_value of Inl e \<Rightarrow> Inl e | Inr q \<Rightarrow> Inr (round1 (q * 100)))
      else Inr 0)"

datatype summary = Summary string string real

definition summary_line :: "string \<Rightarrow> real list \<Rightarrow> py_exception + summary list" where
  "summary_line metric column =
     (if length column > 1
      then (case iloc column (- 2) of
              Inl e \<Rightarrow> Inl e
            | Inr prev_value \<Rightarrow>
                (case iloc column (- 1) of
                   Inl e \<Rightarrow> Inl e
                 | Inr last_value \<Rightarrow>
                     (case percent_change (last_value - prev_value) prev_value of
                        Inl e \<Rightarrow> Inl e
                      | Inr pct \<Rightarrow>
                          Inr [Summary metric
                                 (if last_value - prev_value > 0 then ''increased'' else ''decreased'')
                                 \<bar>pct\<bar>])))
      else Inr [])"

text \<open>
  \<^verbatim>\<open>for metric in ["Revenue Closed", "New Leads", "Deals Closed"]\<close>, over the columns of
  \<^verbatim>\<open>data\<close>.
\<close>

fun executive_summary :: "(string \<Rightarrow> real list) \<Rightarrow> string list \<Rightarrow> py_exception + summary list" where
  "executive_summary data [] = Inr []"
| "executive_summary data (metric # metrics) =
     (case summary_line metric (data metric) of
        Inl e \<Rightarrow> Inl e
      | Inr line \<Rightarrow>
          (case executive_summary data metrics of
             Inl e \<Rightarrow> Inl e
           | Inr summaries \<Rightarrow> Inr (line @ summaries)))"

definition summary_metrics :: "string list" where
  "summary_metrics = [''Revenue Closed'', ''New Leads'', ''Deals Closed'']"

section \<open>Example inputs\<close>

text \<open>
  Libraries whose calls all return, and whose training raises; a table of three rows over
  two weeks, a table that the filters left without rows, and two draws of
  \<^verbatim>\<open>np.random.randint(1000, 5000, 24)\<close>.
\<close>

definition quiet_library :: "unit library" where
  "quiet_library =
     \<lparr>train_model = (\<lambda>s. Inr ()), make_future_dataframe = (\<lambda>m s n. Inr s),
      predict = (\<lambda>m s. Inr []), plotly_chart = (\<lambda>f. None), format_exc = (\<lambda>e. ''Traceback'')\<rparr>"

definition failing_library :: "unit library" where
  "failing_library =
     \<lparr>train_model = (\<lambda>s. Inl (OtherException ''fit failed'')),
      make_future_dataframe = (\<lambda>m s n. Inr s),
      predict = (\<lambda>m s. Inr []), plotly_chart = (\<lambda>f. None), format_exc = (\<lambda>e. ''Traceback'')\<rparr>"

definition two_weeks :: dataframe where
  "two_weeks =
     [(''Week'', Datetimes [Some 19720, Some 19727, Some 19720]),
      (''New Leads'', Numbers [Some 21, Some 35, Some 40])]"

definition no_rows :: dataframe where
  "no_rows = [(''Week'', Datetimes []), (''New Leads'', Numbers [])]"

definition one_draw :: "int list" where
  "one_draw = [4174, 4507, 1860, 2294, 2130, 2095, 4772, 4092, 2638, 3169, 1466, 2238,
               1330, 2482, 3135, 4444, 4171, 3919, 4735, 1130, 2685, 1769, 3433, 2391]"

definition next_draw :: "int list" where
  "next_draw = [1000, 4999, 3005, 2747, 1189, 3734, 4005, 4658, 2899, 2734, 2267, 2528,
                4556, 4890, 1838, 3556, 4247, 2479, 1081, 3372, 2318, 1027, 4394, 3297]"

text \<open>A parser of numeric strings that reads the unsigned decimal integers only.\<close>

definition digit_value :: "char \<Rightarrow> nat option" where
  "digit_value c = map_of (zip ''0123456789'' [0, 1, 2, 3, 4, 5, 6, 7, 8, 9]) c"

fun digits_value :: "nat \<Rightarrow> string \<Rightarrow> nat option" where
  "digits_value n [] = Some n"
| "digits_value n (c # cs) =
     (case digit_value c of None \<Rightarrow> None | Some d \<Rightarrow> digits_value (10 * n + d) cs)"

definition parse_digits :: "string \<Rightarrow> real option" where
  "parse_digits w = (if w = [] then None else map_option real (digits_value 0 w))"

text \<open>Worlds for the loader: the request is answered; it times out and the file is there
  and readable; it times out and there is no file; it times out and the file is there but
  lacks a date column.\<close>

definition served :: dataframe where
  "served = [(''Employee Name'', Objects [Some ''Eve'']), (''Status'', Objects [Some ''Active''])]"

definition timed_out :: py_exception where
  "timed_out = OtherException ''Read timed out. (read timeout=10)''"

definition online :: world where
  "online = \<lparr>http_get = (\<lambda>r. if timeout r = 10 then Inr served else Inl timed_out),
             path_exists = (\<lambda>p. False), read_csv = (\<lambda>p cols. Inl (OtherException ''No such file''))\<rparr>"

definition offline_with_file :: world where
  "offline_with_file =
     \<lparr>http_get = (\<lambda>r. Inl timed_out), path_exists = (\<lambda>p. p = ''mock_sensehr_data.csv''),
      read_csv = (\<lambda>p cols. Inr served)\<rparr>"

definition offline_without_file :: world where
  "offline_without_file =
     \<lparr>http_get = (\<lambda>r. Inl timed_out), path_exists = (\<lambda>p. False),
      read_csv = (\<lambda>p cols. Inl (OtherException ''No such file''))\<rparr>"

definition offline_with_bad_file :: world where
  "offline_with_bad_file =
     \<lparr>http_get = (\<lambda>r. Inl timed_out), path_exists = (\<lambda>p. p = ''mock_sensehr_data.csv''),
      read_csv = (\<lambda>p cols. Inl (OtherException ''Missing column provided to parse_dates''))\<rparr>"

text \<open>A fit that returns the number of points as its model, and one that raises.\<close>

definition counting_fit :: "hyperparameters \<Rightarrow> series \<Rightarrow> py_exception + nat" where
  "counting_fit h s = Inr (length s)"

definition failing_fit :: "hyperparameters \<Rightarrow> series \<Rightarrow> py_exception + nat" where
  "failing_fit h s = Inl (OtherException ''fit failed'')"

section \<open>Properties of sanitization\<close>

lemma coerce_y_number: "is_number (snd (coerce_y parse p))"
  by (cases "snd p") (auto simp: coerce_y_def is_number_def split: option.splits)

lemma coerce_y_fst: "fst (coerce_y parse p) = fst p"
  by (simp add: coerce_y_def)

lemma coerce_y_notna: "notna p \<Longrightarrow> notna (coerce_y parse p)"
  using coerce_y_number [of parse p]
  by (auto simp: notna_def coerce_y_fst is_number_def)

lemma coerce_y_idem: "coerce_y parse (coerce_y parse p) = coerce_y parse p"
  by (cases "snd p") (auto simp: coerce_y_def split: option.splits)

lemma sanitize_notna: "p \<in> set (sanitize parse s) \<Longrightarrow> notna p"
  by (auto simp: sanitize_def dropna_def coerce_y_notna)

lemma dropna_sanitize: "dropna (sanitize parse s) = sanitize parse s"
proof -
  have "\<forall>p \<in> set (sanitize parse s). notna p"
    by (simp add: sanitize_notna)
  then show ?thesis
    unfolding dropna_def by (simp only: filter_True)
qed



text \<open>
  Claim C6: sanitize is idempotent. For every series, dropping the rows with a null
  time stamp or a null value, coercing the values to numbers and filling what does not
  parse with 0, done twice, gives what doing it once gives.
\<close>

theorem sanitize_idempotent:
  "sanitize parse (sanitize parse s) = sanitize parse s"
proof -
  have "sanitize parse (sanitize parse s) = map (coerce_y parse) (sanitize parse s)"
    by (simp add: sanitize_def [of parse "sanitize parse s"] dropna_sanitize)
  also have "\<dots> = sanitize parse s"
    by (simp add: sanitize_def coerce_y_idem)
  finally show ?thesis .
qed

section \<open>Properties of series extraction\<close>

lemma set_bucket_keys: "set (bucket_keys rows) = {k. \<exists>v. (Some k, v) \<in> set rows}"
  by (auto simp: bucket_keys_def List.map_filter_def image_iff) force

lemma bucket_keys_strict: "sorted_wrt (<) (bucket_keys rows)"
  by (simp add: strict_sorted_iff bucket_keys_def)

lemma bucket_sum_eq:
  "bucket_sum rows k =
     (\<Sum>r\<leftarrow>rows. if fst r = Some k then (case snd r of Some v \<Rightarrow> v | None \<Rightarrow> 0) else 0)"
  by (induction rows) (auto simp: bucket_sum_def List.map_filter_def split: option.splits)

lemma stamps_extract:
  "stamps (map (\<lambda>(k, total). (Some k, Num total)) (groupby_sum rows)) = bucket_keys rows"
  by (simp add: stamps_def groupby_sum_def List.map_filter_def comp_def map_idI)

text \<open>
  Claim C7: for every table (its column names distinct) whose columns include the time
  column \<^verbatim>\<open>Week\<close> (a datetime column) and the chosen metric (a numeric column), the
  extractor returns a
  series of \<open>(ds, y)\<close> rows with one row per time bucket: every row has a time stamp, the
  time stamps are strictly ascending (sorted and unique) and are exactly the non-null
  weeks of the table, and the value of a row is the sum of the metric over the rows of
  its bucket (a \<^verbatim>\<open>NaN\<close> adds nothing).
\<close>

theorem get_forecast_data_buckets:
  assumes "distinct (map fst data)"
      and "map_of data ''Week'' = Some (Datetimes ws)"
      and "map_of data forecast_metric = Some (Numbers vs)"
  shows "\<exists>s. get_forecast_data data forecast_metric = Inr s
           \<and> sorted_wrt (<) (stamps s) \<and> length (stamps s) = length s
           \<and> set (stamps s) = {k. \<exists>v. (Some k, v) \<in> set (zip ws vs)}
           \<and> (\<forall>p \<in> set s. \<exists>k. fst p = Some k \<and>
                 snd p = Num (\<Sum>r\<leftarrow>zip ws vs. if fst r = Some k
                                then (case snd r of Some v \<Rightarrow> v | None \<Rightarrow> 0) else 0))"
proof -
  let ?rows = "zip ws vs"
  let ?s = "map (\<lambda>(k, total). (Some k, Num total)) (groupby_sum ?rows)"
  have eq: "get_forecast_data data forecast_metric = Inr ?s"
    using assms by (simp add: get_forecast_data_def)
  have st: "stamps ?s = bucket_keys ?rows" by (rule stamps_extract)
  have len: "length (stamps ?s) = length ?s"
    unfolding st by (simp add: groupby_sum_def)
  have vals: "\<forall>p \<in> set ?s. \<exists>k. fst p = Some k \<and>
                 snd p = Num (\<Sum>r\<leftarrow>?rows. if fst r = Some k
                                then (case snd r of Some v \<Rightarrow> v | None \<Rightarrow> 0) else 0)"
    by (auto simp: groupby_sum_def bucket_sum_eq)
  show ?thesis
    using eq st len vals bucket_keys_strict [of ?rows] set_bucket_keys [of ?rows] by simp
qed

theorem get_forecast_data_buckets_witness:
  "distinct [''Week'', ''Region'', ''New Leads'']
   \<and> map_of [(''Week'', Datetimes [Some 14, Some 7, None, Some 14, Some 7]),
           (''Region'', Objects [Some ''North'', Some ''North'', Some ''South'', Some ''South'', Some ''South'']),
           (''New Leads'', Numbers [Some 20, Some 30, Some 5, None, Some 12])] ''Week''
     = Some (Datetimes [Some 14, Some 7, None, Some 14, Some 7])
   \<and> map_of [(''Week'', Datetimes [Some 14, Some 7, None, Some 14, Some 7]),
           (''Region'', Objects [Some ''North'', Some ''North'', Some ''South'', Some ''South'', Some ''South'']),
           (''New Leads'', Numbers [Some 20, Some 30, Some 5, None, Some 12])] ''New Leads''
     = Some (Numbers [Some 20, Some 30, Some 5, None, Some 12])
   \<and> get_forecast_data
          [(''Week'', Datetimes [Some 14, Some 7, None, Some 14, Some 7]),
           (''Region'', Objects [Some ''North'', Some ''North'', Some ''South'', Some ''South'', Some ''South'']),
           (''New Leads'', Numbers [Some 20, Some 30, Some 5, None, Some 12])] ''New Leads''
     = Inr [(Some 7, Num 42), (Some 14, Num 20)]
   \<and> sorted_wrt (<) (stamps [(Some 7, Num 42), (Some 14, Num 20)])
   \<and> set (stamps [(Some 7, Num 42), (Some 14, Num 20)])
       = {k. \<exists>v. (Some k, v) \<in> set (zip [Some 14, Some 7, None, Some 14, Some 7]
                                       [Some 20, Some 30, Some 5, None, Some (12::real)])}"
proof -
  let ?ws = "[Some 14, Some 7, None, Some 14, Some 7] :: timestamp option list"
  let ?vs = "[Some 20, Some 30, Some 5, None, Some 12] :: real option list"
  let ?data = "[(''Week'', Datetimes ?ws),
           (''Region'', Objects [Some ''North'', Some ''North'', Some ''South'', Some ''South'', Some ''South'']),
           (''New Leads'', Numbers ?vs)]"
  have week: "map_of ?data ''Week'' = Some (Datetimes ?ws)" by simp
  have metric: "map_of ?data ''New Leads'' = Some (Numbers ?vs)" by simp
  have val: "get_forecast_data ?data ''New Leads'' = Inr [(Some 7, Num 42), (Some 14, Num 20)]"
    by (simp add: get_forecast_data_def groupby_sum_def bucket_keys_def bucket_sum_def
          List.map_filter_def)
  have names: "distinct (map fst ?data)" by simp
  from get_forecast_data_buckets [OF names week metric] obtain s
    where s: "get_forecast_data ?data ''New Leads'' = Inr s"
      and srt: "sorted_wrt (<) (stamps s)"
      and keys: "set (stamps s) = {k. \<exists>v. (Some k, v) \<in> set (zip ?ws ?vs)}"
    by blast
  from s val have "s = [(Some 7, Num 42), (Some 14, Num 20)]" by simp
  with srt keys week metric val names show ?thesis by simp
qed

section \<open>The sanitized series\<close>
















section \<open>Properties of the forecasting section\<close>



lemma forecasting_output_calls:
  "Train_call s \<in> set (fst (forecasting_output lib c m fd)) \<Longrightarrow> s = fd"
  by (auto simp: forecasting_output_def train_and_predict_def Let_def split: sum.splits option.splits)

lemma forecasting_again_calls:
  "Train_call s \<in> set (fst (forecasting_again lib fd)) \<Longrightarrow> s = fd"
  by (auto simp: forecasting_again_def train_and_predict_def split: sum.splits)

lemma try_report_snd: "snd (try_except body (report_failure lib)) = None"
  by (simp add: try_except_def report_failure_def split: option.splits)

lemma try_report_not_raised: "try_except body (report_failure lib) = (evs, Some e) \<Longrightarrow> False"
  using try_report_snd [of body lib] by simp


lemma try_report_calls:
  "Train_call s \<in> set (fst (try_except body (report_failure lib))) \<Longrightarrow> Train_call s \<in> set (fst body)"
  by (auto simp: try_except_def report_failure_def split: option.splits)

lemma sublist_quoted: "sublist m (a @ b @ quoted m @ c)"
  unfolding quoted_def sublist_def
  by (rule exI [of _ "a @ b @ [CHR 0x27]"], rule exI [of _ "[CHR 0x27] @ c"]) simp

lemma warning_first_names: "sublist m (warning_first m)"
  unfolding warning_first_def by (rule sublist_quoted)

lemma warning_second_names: "sublist m (warning_second m)"
  unfolding warning_second_def by (rule sublist_quoted)

lemma section_calls:
  assumes "Train_call s \<in> set (fst (forecast_section parse lib lib' randint randint' chart_type forecast_metric data))"
  shows "s \<noteq> [] \<and> y_sum s \<noteq> 0
         \<and> (\<exists>raw'. select_forecast_data randint' forecast_metric data = Inr raw' \<and> s = sanitize parse raw')"
proof (cases "select_forecast_data randint forecast_metric data")
  case (Inl e)
  with assms show ?thesis by (simp add: forecast_section_def)
next
  case first: (Inr raw)
  show ?thesis
  proof (cases "no_valid_data (sanitize parse raw)")
    case True
    with assms first show ?thesis by (simp add: forecast_section_def)
  next
    case valid: False
    show ?thesis
    proof (cases "select_forecast_data randint' forecast_metric data")
      case (Inl e)
      with assms first valid show ?thesis by (simp add: forecast_section_def)
    next
      case second: (Inr raw')
      let ?fd = "sanitize parse raw'"
      show ?thesis
      proof (cases "no_valid_data ?fd")
        case True
        with assms first valid second show ?thesis by (simp add: forecast_section_def Let_def)
      next
        case False
        let ?b1 = "try_except (forecasting_output lib chart_type forecast_metric ?fd) (report_failure lib)"
        let ?b2 = "try_except (forecasting_again lib' ?fd) (report_failure lib')"
        from assms first valid second False
        have "Train_call s \<in> set (fst ?b1) \<or> Train_call s \<in> set (fst ?b2)"
          by (auto simp: forecast_section_def Let_def try_report_snd split: prod.splits option.splits)
        then have "s = ?fd"
          using try_report_calls forecasting_output_calls forecasting_again_calls by blast
        with False second show ?thesis by (simp add: no_valid_data_def)
      qed
    qed
  qed
qed

lemma section_halts:
  assumes first: "select_forecast_data randint forecast_metric data = Inr raw"
      and second: "select_forecast_data randint' forecast_metric data = Inr raw'"
      and invalid: "no_valid_data (sanitize parse raw) \<or> no_valid_data (sanitize parse raw')"
  shows "snd (forecast_section parse lib lib' randint randint' chart_type forecast_metric data) = Stopped
       \<and> (\<exists>w. last (fst (forecast_section parse lib lib' randint randint' chart_type forecast_metric data))
                 = St_warning w \<and> sublist forecast_metric w)"
proof (cases "no_valid_data (sanitize parse raw)")
  case True
  with first show ?thesis
    by (simp add: forecast_section_def warning_first_names)
next
  case False
  with invalid have "no_valid_data (sanitize parse raw')" by simp
  with False first second show ?thesis
    by (simp add: forecast_section_def Let_def warning_second_names)
qed

text \<open>
  Claim C3: for every input, if the sanitized forecast series is empty or the sum of
  its values is exactly zero (at either of the two places where the script builds and
  cleans it), the section halts: it ends in \<^verbatim>\<open>st.stop()\<close>, the last thing shown is a
  warning whose text contains the name of the metric, and \<^verbatim>\<open>train_forecast_model\<close> is
  never called. Conversely every call of \<^verbatim>\<open>train_forecast_model\<close> is on the sanitized
  series, which is then non-empty with a nonzero sum of values.
\<close>

theorem no_usable_signal_halts_before_training:
  "(select_forecast_data randint forecast_metric data = Inr raw
     \<and> select_forecast_data randint' forecast_metric data = Inr raw'
     \<and> (no_valid_data (sanitize parse raw) \<or> no_valid_data (sanitize parse raw'))
    \<longrightarrow> snd (forecast_section parse lib lib' randint randint' chart_type forecast_metric data) = Stopped
        \<and> (\<exists>w. last (fst (forecast_section parse lib lib' randint randint' chart_type forecast_metric data))
                  = St_warning w \<and> sublist forecast_metric w)
        \<and> (\<forall>s. Train_call s
                  \<notin> set (fst (forecast_section parse lib lib' randint randint' chart_type forecast_metric data))))
   \<and> (\<forall>s. Train_call s \<in> set (fst (forecast_section parse lib lib' randint randint' chart_type forecast_metric data))
      \<longrightarrow> s \<noteq> [] \<and> y_sum s \<noteq> 0
          \<and> (\<exists>raw'. select_forecast_data randint' forecast_metric data = Inr raw' \<and> s = sanitize parse raw'))"
proof -
  let ?sec = "forecast_section parse lib lib' randint randint' chart_type forecast_metric data"
  have calls: "\<forall>s. Train_call s \<in> set (fst ?sec)
      \<longrightarrow> s \<noteq> [] \<and> y_sum s \<noteq> 0
          \<and> (\<exists>raw'. select_forecast_data randint' forecast_metric data = Inr raw' \<and> s = sanitize parse raw')"
    using section_calls by blast
  have halts: "select_forecast_data randint forecast_metric data = Inr raw
     \<and> select_forecast_data randint' forecast_metric data = Inr raw'
     \<and> (no_valid_data (sanitize parse raw) \<or> no_valid_data (sanitize parse raw'))
    \<longrightarrow> snd ?sec = Stopped
        \<and> (\<exists>w. last (fst ?sec) = St_warning w \<and> sublist forecast_metric w)
        \<and> (\<forall>s. Train_call s \<notin> set (fst ?sec))"
  proof (intro impI conjI allI)
    assume h: "select_forecast_data randint forecast_metric data = Inr raw
     \<and> select_forecast_data randint' forecast_metric data = Inr raw'
     \<and> (no_valid_data (sanitize parse raw) \<or> no_valid_data (sanitize parse raw'))"
    then have halt: "snd ?sec = Stopped \<and> (\<exists>w. last (fst ?sec) = St_warning w \<and> sublist forecast_metric w)"
      using section_halts by blast
    from halt show "snd ?sec = Stopped" by simp
    from halt show "\<exists>w. last (fst ?sec) = St_warning w \<and> sublist forecast_metric w" by simp
    fix s
    show "Train_call s \<notin> set (fst ?sec)"
    proof
      assume "Train_call s \<in> set (fst ?sec)"
      from section_calls [OF this] h have valid: "\<not> no_valid_data (sanitize parse raw')"
        by (auto simp: no_valid_data_def)
      with h have "no_valid_data (sanitize parse raw)" by simp
      with h have "fst ?sec = [St_warning (warning_first forecast_metric)]"
        by (simp add: forecast_section_def)
      with \<open>Train_call s \<in> set (fst ?sec)\<close> show False by simp
    qed
  qed
  from halts calls show ?thesis by (intro conjI)
qed

theorem no_usable_signal_halts_before_training_witness:
  "select_forecast_data [] ''New Leads'' no_rows = Inr []
   \<and> no_valid_data (sanitize parse_digits [])
   \<and> snd (forecast_section parse_digits quiet_library quiet_library [] [] Line_Chart ''New Leads'' no_rows)
       = Stopped
   \<and> fst (forecast_section parse_digits quiet_library quiet_library [] [] Line_Chart ''New Leads'' no_rows)
       = [St_warning (warning_first ''New Leads'')]
   \<and> Train_call [(Some 19720, Num 61), (Some 19727, Num 35)]
       \<in> set (fst (forecast_section parse_digits quiet_library quiet_library [] [] Line_Chart
                     ''New Leads'' two_weeks))
   \<and> y_sum [(Some 19720, Num 61), (Some 19727, Num 35)] \<noteq> 0"
proof -
  let ?fd = "[(Some 19720, Num 61), (Some 19727, Num 35)]"
  have sel: "select_forecast_data [] ''New Leads'' no_rows = Inr []"
    by (simp add: select_forecast_data_def get_forecast_data_def groupby_sum_def bucket_keys_def
          List.map_filter_def no_rows_def)
  have inv: "no_valid_data (sanitize parse_digits [])"
    by (simp add: no_valid_data_def sanitize_def dropna_def)
  have shown: "fst (forecast_section parse_digits quiet_library quiet_library [] [] Line_Chart ''New Leads'' no_rows)
       = [St_warning (warning_first ''New Leads'')]"
    by (simp add: forecast_section_def sel inv)
  have sel2: "select_forecast_data [] ''New Leads'' two_weeks = Inr ?fd"
    by (simp add: select_forecast_data_def get_forecast_data_def groupby_sum_def bucket_keys_def
          bucket_sum_def List.map_filter_def two_weeks_def)
  have san: "sanitize parse_digits ?fd = ?fd"
    by (simp add: sanitize_def dropna_def notna_def coerce_y_def)
  have ok: "\<not> no_valid_data ?fd"
    by (simp add: no_valid_data_def y_sum_def y_value_def)
  have call: "Train_call ?fd
       \<in> set (fst (forecast_section parse_digits quiet_library quiet_library [] [] Line_Chart
                     ''New Leads'' two_weeks))"
    by (simp add: forecast_section_def sel2 san ok Let_def try_except_def forecasting_output_def
          forecasting_again_def train_and_predict_def quiet_library_def)
  from no_usable_signal_halts_before_training
         [where randint = "[]" and randint' = "[]" and forecast_metric = "''New Leads''"
            and data = no_rows and raw = "[]" and raw' = "[]" and parse = parse_digits
            and lib = quiet_library and lib' = quiet_library and chart_type = Line_Chart]
       sel inv
  have stop: "snd (forecast_section parse_digits quiet_library quiet_library [] [] Line_Chart ''New Leads'' no_rows)
       = Stopped"
    by blast
  from no_usable_signal_halts_before_training
         [where randint = "[]" and randint' = "[]" and forecast_metric = "''New Leads''"
            and data = two_weeks and parse = parse_digits
            and lib = quiet_library and lib' = quiet_library and chart_type = Line_Chart]
       call
  have "y_sum ?fd \<noteq> 0" by blast
  with sel inv stop shown call show ?thesis by (intro conjI)
qed




section \<open>The DEBUG series\<close>

lemma length_date_range_W: "length (date_range_W start n) = n"
  by (simp add: date_range_W_def)

lemma length_debug: "length randint = 24 \<Longrightarrow> length (debug_forecast_data randint) = 24"
  by (simp add: debug_forecast_data_def length_date_range_W)

lemma debug_point:
  assumes "p \<in> set (debug_forecast_data randint)"
  shows "\<exists>t v. p = (Some t, Num (of_int v)) \<and> v \<in> set randint"
proof -
  obtain a b where p: "p = (a, b)" by (cases p)
  with assms have "a \<in> set (map Some (date_range_W 19358 24))"
    and "b \<in> set (map (\<lambda>v. Num (of_int v)) randint)"
    unfolding debug_forecast_data_def by (blast dest: set_zip_leftD, blast dest: set_zip_rightD)
  with p show ?thesis by auto
qed

lemma sanitize_clean_id:
  assumes "\<forall>p \<in> set s. \<exists>t v. p = (Some t, Num v)"
  shows "sanitize parse s = s"
proof -
  have keep: "dropna s = s"
    unfolding dropna_def using assms by (intro filter_True) (auto simp: notna_def)
  have same: "map (coerce_y parse) s = s"
    using assms by (intro map_idI) (auto simp: coerce_y_def)
  show ?thesis by (simp add: sanitize_def keep same)
qed

lemma sanitize_debug: "sanitize parse (debug_forecast_data randint) = debug_forecast_data randint"
  by (rule sanitize_clean_id) (blast dest: debug_point)

lemma y_sum_lower:
  assumes "\<forall>p \<in> set s. \<exists>t v. p = (t, Num v) \<and> b \<le> v"
  shows "b * real (length s) \<le> y_sum s"
  using assms
proof (induction s)
  case Nil
  then show ?case by (simp add: y_sum_def)
next
  case (Cons p s)
  then obtain t v where p: "p = (t, Num v)" and v: "b \<le> v" by auto
  from Cons have "b * real (length s) \<le> y_sum s" by simp
  with p v show ?case by (simp add: y_sum_def y_value_def algebra_simps)
qed

lemma debug_values:
  assumes "\<forall>v \<in> set randint. 1000 \<le> v \<and> v < 5000"
  shows "\<forall>p \<in> set (debug_forecast_data randint). \<exists>t v. p = (Some t, Num v) \<and> 1000 \<le> v"
proof
  fix p assume "p \<in> set (debug_forecast_data randint)"
  from debug_point [OF this] obtain t v where "p = (Some t, Num (of_int v))" "v \<in> set randint"
    by blast
  with assms show "\<exists>t v. p = (Some t, Num v) \<and> 1000 \<le> v" by auto
qed

lemma y_sum_debug:
  assumes "length randint = 24" and "\<forall>v \<in> set randint. 1000 \<le> v \<and> v < 5000"
  shows "24000 \<le> y_sum (debug_forecast_data randint)"
proof -
  have "\<forall>p \<in> set (debug_forecast_data randint). \<exists>t v. p = (t, Num v) \<and> 1000 \<le> v"
    using debug_values [OF assms(2)] by blast
  from y_sum_lower [OF this] length_debug [OF assms(1)] show ?thesis by simp
qed

lemma debug_valid:
  assumes "length randint = 24" and "\<forall>v \<in> set randint. 1000 \<le> v \<and> v < 5000"
  shows "\<not> no_valid_data (sanitize parse (debug_forecast_data randint))"
proof -
  have "debug_forecast_data randint \<noteq> []"
    using length_debug [OF assms(1)] by auto
  moreover have "y_sum (debug_forecast_data randint) \<noteq> 0"
    using y_sum_debug [OF assms] by simp
  ultimately show ?thesis by (simp add: no_valid_data_def sanitize_debug)
qed

text \<open>
  Claim C10: when the \<^verbatim>\<open>DEBUG\<close> metric is selected and each of the two draws of
  \<^verbatim>\<open>np.random.randint(1000, 5000, 24)\<close> is a list of 24 integers from 1000 up to 4999, the
  sanitized series has exactly 24 points, each with a time stamp and a value of at least
  1000; so it is non-empty, the sum of its values is strictly positive, the validity check
  does not fire, and the section is never stopped by \<^verbatim>\<open>st.stop()\<close>: it runs to its end.
\<close>

theorem debug_series_passes_validation:
  assumes "length randint = 24" and "\<forall>v \<in> set randint. 1000 \<le> v \<and> v < 5000"
      and "length randint' = 24" and "\<forall>v \<in> set randint'. 1000 \<le> v \<and> v < 5000"
  shows "length (sanitize parse (debug_forecast_data randint)) = 24
       \<and> (\<forall>p \<in> set (sanitize parse (debug_forecast_data randint)). \<exists>t v. p = (Some t, Num v) \<and> 1000 \<le> v)
       \<and> 0 < y_sum (sanitize parse (debug_forecast_data randint))
       \<and> \<not> no_valid_data (sanitize parse (debug_forecast_data randint))
       \<and> \<not> no_valid_data (sanitize parse (debug_forecast_data randint'))
       \<and> snd (forecast_section parse lib lib' randint randint' chart_type ''DEBUG'' data) = Completed"
proof -
  have pts: "\<forall>p \<in> set (debug_forecast_data randint). \<exists>t v. p = (Some t, Num v) \<and> 1000 \<le> v"
    by (rule debug_values [OF assms(2)])
  have pos: "0 < y_sum (debug_forecast_data randint)"
    using y_sum_debug [OF assms(1,2)] by simp
  have v1: "\<not> no_valid_data (sanitize parse (debug_forecast_data randint))"
    by (rule debug_valid [OF assms(1,2)])
  have v2: "\<not> no_valid_data (sanitize parse (debug_forecast_data randint'))"
    by (rule debug_valid [OF assms(3,4)])
  have completed: "snd (forecast_section parse lib lib' randint randint' chart_type ''DEBUG'' data) = Completed"
    using v1 v2
    by (auto simp: forecast_section_def select_forecast_data_def Let_def
          split: prod.splits option.splits dest: try_report_not_raised)
  show ?thesis
    using pts pos v1 v2 completed length_debug [OF assms(1)] by (simp add: sanitize_debug)
qed

theorem debug_series_passes_validation_witness:
  "length one_draw = 24 \<and> list_all (\<lambda>v. 1000 \<le> v \<and> v < 5000) one_draw
   \<and> length next_draw = 24 \<and> list_all (\<lambda>v. 1000 \<le> v \<and> v < 5000) next_draw
   \<and> length (sanitize parse_digits (debug_forecast_data one_draw)) = 24
   \<and> 0 < y_sum (sanitize parse_digits (debug_forecast_data one_draw))
   \<and> snd (forecast_section parse_digits failing_library quiet_library one_draw next_draw Bar_Chart
            ''DEBUG'' no_rows) = Completed"
proof -
  have l1: "length one_draw = 24" and l2: "length next_draw = 24"
    by (simp_all add: one_draw_def next_draw_def)
  have r1: "\<forall>v \<in> set one_draw. 1000 \<le> v \<and> v < 5000"
    by (simp add: one_draw_def)
  have r2: "\<forall>v \<in> set next_draw. 1000 \<le> v \<and> v < 5000"
    by (simp add: next_draw_def)
  from debug_series_passes_validation [OF l1 r1 l2 r2, of parse_digits failing_library quiet_library Bar_Chart no_rows]
       l1 l2 r1 r2
  show ?thesis
    unfolding list_all_iff by blast
qed

section \<open>Properties of the week-over-week ratios\<close>

lemma ratio_test_not_raised: "ratio_test previous change test = Inl e \<Longrightarrow> False"
  by (simp add: ratio_test_def truediv_def split: if_splits)

lemma alert_of_not_raised: "alert_of previous change = Inl e \<Longrightarrow> False"
  by (auto simp: alert_of_def split: sum.splits bool.splits dest: ratio_test_not_raised)

lemma percent_change_not_raised: "percent_change diff prev_value = Inl e \<Longrightarrow> False"
  by (simp add: percent_change_def truediv_def split: if_splits)

lemma iloc_error: "iloc column i = Inl e \<Longrightarrow> e = IndexError"
  by (auto simp: iloc_def split: if_splits)

lemma display_error:
  "display_metric_with_target column targets metric label = Inl e \<Longrightarrow> e = IndexError"
  by (auto simp: display_metric_with_target_def current_value_def previous_value_def
        split: sum.splits if_splits dest: iloc_error alert_of_not_raised)

lemma summary_line_error: "summary_line metric column = Inl e \<Longrightarrow> False"
  by (auto simp: summary_line_def iloc_def split: sum.splits if_splits
        dest: percent_change_not_raised)

lemma executive_summary_total: "\<exists>summaries. executive_summary data metrics = Inr summaries"
proof (induction metrics)
  case Nil
  then show ?case by simp
next
  case (Cons m ms)
  then show ?case
    by (cases "summary_line m (data m)") (auto dest: summary_line_error)
qed

text \<open>
  Claim C9, as stated: every week-over-week ratio is guarded, and when the filtered data
  has fewer than two rows the previous value defaults to the current value. With no row
  at all there is no current value to default to: the read \<^verbatim>\<open>data[metric].iloc[-1]\<close>
  raises \<^verbatim>\<open>IndexError\<close>, and the card is not drawn.
\<close>

theorem metric_card_without_rows_counterexample:
  "current_value [] = Inl IndexError
   \<and> previous_value [] = Inl IndexError
   \<and> display_metric_with_target [] [(''New Leads'', 40)] ''New Leads''
        ''Number of New Leads/Prospects Added'' = Inl IndexError"
  by (simp add: display_metric_with_target_def current_value_def previous_value_def iloc_def)

text \<open>
  Claim C9, amended: every week-over-week ratio in the metric cards and the executive
  summary is guarded. The division \<^verbatim>\<open>change / previous\<close> of
  \<^verbatim>\<open>display_metric_with_target\<close> and the division of the percent change in the summary
  are evaluated only when the previous value is not zero (when it is zero, no alert is
  shown and the percent is reported as 0); when the filtered data has exactly one row the
  previous value is the current value, and with fewer than two rows the summary has no
  line; so no division by zero occurs in these computations, on any data.
\<close>

theorem ratios_are_guarded:
  "display_metric_with_target column targets metric label \<noteq> Inl ZeroDivisionError
   \<and> (\<exists>summaries. executive_summary data summary_metrics = Inr summaries)
   \<and> ratio_test previous change test \<noteq> Inl ZeroDivisionError
   \<and> (previous \<noteq> 0 \<longrightarrow> ratio_test previous change test = Inr (test (change / previous)))
   \<and> ratio_test 0 change test = Inr False
   \<and> alert_of 0 change = Inr []
   \<and> percent_change diff 0 = Inr 0
   \<and> (prev_value \<noteq> 0 \<longrightarrow> percent_change diff prev_value = Inr (round1 (diff / prev_value * 100)))
   \<and> (length column = 1 \<longrightarrow>
        current_value column = Inr (hd column) \<and> previous_value column = Inr (hd column)
        \<and> display_metric_with_target column targets metric label
            = Inr (Card (label @ '' '') (int_of (hd column))
                    (case map_of targets metric of None \<Rightarrow> None
                     | Some target \<Rightarrow> Some (target, hd column - of_int target))))
   \<and> (length column \<le> 1 \<longrightarrow> summary_line metric column = Inr [])"
proof -
  have a: "display_metric_with_target column targets metric label \<noteq> Inl ZeroDivisionError"
    using display_error by fastforce
  have b: "ratio_test previous change test \<noteq> Inl ZeroDivisionError"
    using ratio_test_not_raised by fastforce
  have c: "length column = 1 \<longrightarrow>
        current_value column = Inr (hd column) \<and> previous_value column = Inr (hd column)
        \<and> display_metric_with_target column targets metric label
            = Inr (Card (label @ '' '') (int_of (hd column))
                    (case map_of targets metric of None \<Rightarrow> None
                     | Some target \<Rightarrow> Some (target, hd column - of_int target)))"
  proof
    assume "length column = 1"
    then obtain x where x: "column = [x]" by (cases column) auto
    show "current_value column = Inr (hd column) \<and> previous_value column = Inr (hd column)
        \<and> display_metric_with_target column targets metric label
            = Inr (Card (label @ '' '') (int_of (hd column))
                    (case map_of targets metric of None \<Rightarrow> None
                     | Some target \<Rightarrow> Some (target, hd column - of_int target)))"
      unfolding x
      by (simp add: display_metric_with_target_def current_value_def previous_value_def iloc_def
            alert_of_def ratio_test_def truediv_def split: option.splits)
  qed
  have d: "length column \<le> 1 \<longrightarrow> summary_line metric column = Inr []"
    by (simp add: summary_line_def)
  have e: "previous \<noteq> 0 \<longrightarrow> ratio_test previous change test = Inr (test (change / previous))"
    by (simp add: ratio_test_def truediv_def)
  have f: "prev_value \<noteq> 0 \<longrightarrow> percent_change diff prev_value = Inr (round1 (diff / prev_value * 100))"
    by (simp add: percent_change_def truediv_def)
  have g: "ratio_test 0 change test = Inr False" "percent_change diff 0 = Inr 0" "alert_of 0 change = Inr []"
    by (simp_all add: ratio_test_def percent_change_def alert_of_def)
  from a b c d e f g executive_summary_total [of data summary_metrics]
  show ?thesis by (intro conjI)
qed

theorem ratios_are_guarded_witness:
  "ratio_test 20 10 (\<lambda>r. 0.25 < r) = Inr True
   \<and> percent_change 10 20 = Inr 50
   \<and> length [30::real] = 1
   \<and> previous_value [30] = Inr 30
   \<and> display_metric_with_target [30] [(''New Leads'', 40)] ''New Leads'' ''Leads''
       = Inr (Card ''Leads '' 30 (Some (40, - 10)))
   \<and> summary_line ''New Leads'' [30] = Inr []
   \<and> display_metric_with_target [0, 30] [(''New Leads'', 40)] ''New Leads'' ''Leads''
       = Inr (Card ''Leads '' 30 (Some (40, - 10)))
   \<and> display_metric_with_target [20, 30] [] ''Referrals'' ''Referrals''
       = Inr (Card (''Referrals '' @ spike) 30 None)
   \<and> executive_summary (\<lambda>m. if m = ''New Leads'' then [0, 30] else [3000, 2000]) summary_metrics
       = Inr [Summary ''Revenue Closed'' ''decreased'' (333 / 10), Summary ''New Leads'' ''increased'' 0,
              Summary ''Deals Closed'' ''decreased'' (333 / 10)]"
proof -
  have r50: "round1 50 = 50"
    by (simp add: round1_def round_half_even_def)
  have r33: "round1 (- (100 / 3)) = - (333 / 10)"
  proof -
    have fl: "\<lfloor>- (1000 / 3) :: real\<rfloor> = - 334"
      by (rule floor_unique) simp_all
    have "- (100 / 3) * 10 = (- (1000 / 3) :: real)" by simp
    then show ?thesis
      by (simp add: round1_def round_half_even_def fl)
  qed
  have c1: "display_metric_with_target [0, 30] [(''New Leads'', 40)] ''New Leads'' ''Leads''
       = Inr (Card ''Leads '' 30 (Some (40, - 10)))"
    by (simp add: display_metric_with_target_def current_value_def previous_value_def iloc_def
          alert_of_def ratio_test_def int_of_def)
  have c2: "display_metric_with_target [20, 30] [] ''Referrals'' ''Referrals''
       = Inr (Card (''Referrals '' @ spike) 30 None)"
    by (simp add: display_metric_with_target_def current_value_def previous_value_def iloc_def
          alert_of_def ratio_test_def truediv_def int_of_def)
  have s: "executive_summary (\<lambda>m. if m = ''New Leads'' then [0, 30] else [3000, 2000]) summary_metrics
       = Inr [Summary ''Revenue Closed'' ''decreased'' (333 / 10), Summary ''New Leads'' ''increased'' 0,
              Summary ''Deals Closed'' ''decreased'' (333 / 10)]"
    by (simp add: summary_metrics_def summary_line_def iloc_def percent_change_def truediv_def r33)
  from ratios_are_guarded [where previous = 20 and change = 10 and test = "\<lambda>r. 0.25 < r" and diff = 10 and prev_value = 20
             and column = "[30]" and targets = "[(''New Leads'', 40)]" and metric = "''New Leads''"
             and label = "''Leads''"]
  have "ratio_test 20 10 (\<lambda>r. 0.25 < r) = Inr True
   \<and> percent_change 10 20 = Inr 50
   \<and> previous_value [30] = Inr 30
   \<and> display_metric_with_target [30] [(''New Leads'', 40)] ''New Leads'' ''Leads''
       = Inr (Card ''Leads '' 30 (Some (40, - 10)))
   \<and> summary_line ''New Leads'' [30] = Inr []"
    by (simp add: r50 int_of_def)
  with c1 c2 s show ?thesis by simp
qed

section \<open>Properties of the data loader\<close>

text \<open>
  Claim C8, as stated: the data loader always returns a table. When the request fails
  and the local file exists, the loader returns whatever \<^verbatim>\<open>pd.read_csv\<close> does; that
  call is inside the \<^verbatim>\<open>except\<close> clause, under no handler of its own, so a file that
  cannot be read as asked (here, one without a date column named in
  \<^verbatim>\<open>parse_dates\<close>) makes the loader raise.
\<close>

theorem load_hr_data_unreadable_file_counterexample:
  "http_get offline_with_bad_file hr_request = Inl timed_out
   \<and> path_exists offline_with_bad_file ''mock_sensehr_data.csv''
   \<and> snd (load_hr_data offline_with_bad_file)
       = Inl (OtherException ''Missing column provided to parse_dates'')"
  by (simp add: load_hr_data_def offline_with_bad_file_def)

text \<open>
  Claim C8, amended: the data loader tries the remote HTTP endpoint first, with a timeout
  of 10 seconds, and returns its table when the request succeeds. On any failure of the
  request it falls back to the local CSV file if that exists, returning what reading it
  gives, and otherwise to the built-in table of 4 rows and 14 columns. The failure of the
  request itself is never raised: the loader raises only when the local file exists and
  reading it raises, and then with the exception of the read.
\<close>

theorem load_hr_data_fallbacks:
  "(http_get w hr_request = Inr frame \<longrightarrow> load_hr_data w = ([], Inr frame))
   \<and> timeout hr_request = 10
   \<and> (http_get w hr_request = Inl e \<and> path_exists w ''mock_sensehr_data.csv'' \<longrightarrow>
        snd (load_hr_data w)
          = read_csv w ''mock_sensehr_data.csv'' [''Joining Date'', ''Hire Date'', ''Application Date''])
   \<and> (http_get w hr_request = Inl e \<and> \<not> path_exists w ''mock_sensehr_data.csv'' \<longrightarrow>
        snd (load_hr_data w) = Inr dummy_hr_data)
   \<and> (snd (load_hr_data w) = Inl e' \<longrightarrow>
        (\<exists>e. http_get w hr_request = Inl e) \<and> path_exists w ''mock_sensehr_data.csv''
        \<and> read_csv w ''mock_sensehr_data.csv'' [''Joining Date'', ''Hire Date'', ''Application Date''] = Inl e')
   \<and> length dummy_hr_data = 14
   \<and> list_all (\<lambda>c. column_length (snd c) = 4) dummy_hr_data"
  by (auto simp: load_hr_data_def hr_request_def dummy_hr_data_def column_length_def split: sum.splits if_splits)

theorem load_hr_data_fallbacks_witness:
  "http_get online hr_request = Inr served
   \<and> load_hr_data online = ([], Inr served)
   \<and> http_get offline_with_file hr_request = Inl timed_out
   \<and> path_exists offline_with_file ''mock_sensehr_data.csv''
   \<and> snd (load_hr_data offline_with_file) = Inr served
   \<and> http_get offline_without_file hr_request = Inl timed_out
   \<and> \<not> path_exists offline_without_file ''mock_sensehr_data.csv''
   \<and> snd (load_hr_data offline_without_file) = Inr dummy_hr_data
   \<and> snd (load_hr_data offline_with_bad_file) = Inl (OtherException ''Missing column provided to parse_dates'')
   \<and> read_csv offline_with_bad_file ''mock_sensehr_data.csv'' [''Joining Date'', ''Hire Date'', ''Application Date'']
       = Inl (OtherException ''Missing column provided to parse_dates'')"
proof -
  have a: "http_get online hr_request = Inr served"
    by (simp add: online_def hr_request_def)
  have b: "http_get offline_with_file hr_request = Inl timed_out"
    "path_exists offline_with_file ''mock_sensehr_data.csv''"
    "read_csv offline_with_file ''mock_sensehr_data.csv'' [''Joining Date'', ''Hire Date'', ''Application Date''] = Inr served"
    by (simp_all add: offline_with_file_def)
  have c: "http_get offline_without_file hr_request = Inl timed_out"
    "\<not> path_exists offline_without_file ''mock_sensehr_data.csv''"
    by (simp_all add: offline_without_file_def)
  have d: "snd (load_hr_data offline_with_bad_file) = Inl (OtherException ''Missing column provided to parse_dates'')"
    by (simp add: load_hr_data_def offline_with_bad_file_def)
  from load_hr_data_fallbacks [where w = online and frame = served] a
  have a': "load_hr_data online = ([], Inr served)" by blast
  from load_hr_data_fallbacks [where w = offline_with_file and e = timed_out] b
  have b': "snd (load_hr_data offline_with_file) = Inr served" by simp
  from load_hr_data_fallbacks [where w = offline_without_file and e = timed_out] c
  have c': "snd (load_hr_data offline_without_file) = Inr dummy_hr_data" by blast
  from load_hr_data_fallbacks [where w = offline_with_bad_file and e' = "OtherException ''Missing column provided to parse_dates''"] d
  have d': "read_csv offline_with_bad_file ''mock_sensehr_data.csv'' [''Joining Date'', ''Hire Date'', ''Application Date'']
       = Inl (OtherException ''Missing column provided to parse_dates'')" by blast
  from a a' b(1,2) b' c c' d d' show ?thesis by (intro conjI)
qed

section \<open>Properties of the model cache\<close>

lemma cache_hit:
  "map_of (entries c) k = Some m \<Longrightarrow> cache_resource f k c = (Inr m, c)"
  by (simp add: cache_resource_def)

lemma cache_after_success:
  "fst (cache_resource f k c) = Inr m \<Longrightarrow> map_of (entries (snd (cache_resource f k c))) k = Some m"
  by (auto simp: cache_resource_def split: option.splits sum.splits)

lemma cache_trainings_step:
  "trainings (snd (cache_resource f k c)) \<le> Suc (trainings c)"
  by (auto simp: cache_resource_def split: option.splits sum.splits)

lemma cache_other_key:
  "k' \<noteq> k \<Longrightarrow> map_of (entries (snd (cache_resource f k c))) k' = map_of (entries c) k'"
  by (auto simp: cache_resource_def split: option.splits sum.splits)

lemma cache_miss:
  "map_of (entries c) k = None \<Longrightarrow>
     fst (cache_resource f k c) = f k \<and> trainings (snd (cache_resource f k c)) = Suc (trainings c)"
  by (auto simp: cache_resource_def split: option.splits sum.splits)

lemma cache_failure:
  "fst (cache_resource f k c) = Inl e \<Longrightarrow>
     map_of (entries c) k = None \<and> f k = Inl e \<and> entries (snd (cache_resource f k c)) = entries c"
  by (auto simp: cache_resource_def split: option.splits sum.splits)

text \<open>
  Claim C2, as stated: for every series, two calls of the cached training entry point
  with the same input return the same trained model and perform at most one training
  computation. A training that fails stores nothing, so for a series on which the fit
  raises both calls train, and neither returns a model.
\<close>

theorem failed_training_is_repeated_counterexample:
  "fst (train_forecast_model failing_fit [(Some 19358, Num 1200)] empty_cache)
      = Inl (OtherException ''fit failed'')
   \<and> fst (train_forecast_model failing_fit [(Some 19358, Num 1200)]
        (snd (train_forecast_model failing_fit [(Some 19358, Num 1200)] empty_cache)))
      = Inl (OtherException ''fit failed'')
   \<and> trainings (snd (train_forecast_model failing_fit [(Some 19358, Num 1200)]
        (snd (train_forecast_model failing_fit [(Some 19358, Num 1200)] empty_cache)))) = 2"
  by (simp add: train_forecast_model_def cache_resource_def empty_cache_def fit_model_def failing_fit_def)

text \<open>
  Claim C2, amended: for every series, if the first of two calls of the cached training
  entry point with structurally identical input returns a model, the second call returns
  the same model and performs no training, so the two calls perform at most one training
  computation; if the first call fails, nothing is stored and the second call trains
  again. A series that differs from the one just requested and is not yet in the cache is
  a cache miss: the call trains on it and returns what the fit gives.
\<close>

theorem model_cache_hits_and_misses:
  "(fst (train_forecast_model fit s c) = Inr m \<longrightarrow>
       fst (train_forecast_model fit s (snd (train_forecast_model fit s c))) = Inr m
     \<and> trainings (snd (train_forecast_model fit s (snd (train_forecast_model fit s c))))
         = trainings (snd (train_forecast_model fit s c))
     \<and> trainings (snd (train_forecast_model fit s (snd (train_forecast_model fit s c))))
         \<le> trainings c + 1)
   \<and> (fst (train_forecast_model fit s c) = Inl e \<longrightarrow>
       entries (snd (train_forecast_model fit s c)) = entries c
     \<and> fst (train_forecast_model fit s (snd (train_forecast_model fit s c))) = Inl e
     \<and> trainings (snd (train_forecast_model fit s (snd (train_forecast_model fit s c))))
         = trainings c + 2)
   \<and> (s' \<noteq> s \<and> map_of (entries c) s' = None \<longrightarrow>
       fst (train_forecast_model fit s' (snd (train_forecast_model fit s c))) = fit fixed_hyperparameters s'
     \<and> trainings (snd (train_forecast_model fit s' (snd (train_forecast_model fit s c))))
         = trainings (snd (train_forecast_model fit s c)) + 1)"
proof -
  let ?f = "fit_model fit"
  let ?c1 = "snd (cache_resource ?f s c)"
  have hit: "fst (cache_resource ?f s c) = Inr m \<longrightarrow>
       fst (cache_resource ?f s ?c1) = Inr m
     \<and> trainings (snd (cache_resource ?f s ?c1)) = trainings ?c1
     \<and> trainings (snd (cache_resource ?f s ?c1)) \<le> trainings c + 1"
  proof
    assume ok: "fst (cache_resource ?f s c) = Inr m"
    from cache_hit [OF cache_after_success [OF ok]]
    have "cache_resource ?f s ?c1 = (Inr m, ?c1)" .
    then show "fst (cache_resource ?f s ?c1) = Inr m
     \<and> trainings (snd (cache_resource ?f s ?c1)) = trainings ?c1
     \<and> trainings (snd (cache_resource ?f s ?c1)) \<le> trainings c + 1"
      using cache_trainings_step [of ?f s c] by simp
  qed
  have fail: "fst (cache_resource ?f s c) = Inl e \<longrightarrow>
       entries ?c1 = entries c
     \<and> fst (cache_resource ?f s ?c1) = Inl e
     \<and> trainings (snd (cache_resource ?f s ?c1)) = trainings c + 2"
  proof
    assume bad: "fst (cache_resource ?f s c) = Inl e"
    from cache_failure [OF bad] have none: "map_of (entries c) s = None" and fk: "?f s = Inl e"
      and same: "entries ?c1 = entries c" by simp_all
    from none same have none1: "map_of (entries ?c1) s = None" by simp
    from cache_miss [OF none, of ?f] cache_miss [OF none1, of ?f] fk same
    show "entries ?c1 = entries c
     \<and> fst (cache_resource ?f s ?c1) = Inl e
     \<and> trainings (snd (cache_resource ?f s ?c1)) = trainings c + 2" by simp
  qed
  have miss: "s' \<noteq> s \<and> map_of (entries c) s' = None \<longrightarrow>
       fst (cache_resource ?f s' ?c1) = fit fixed_hyperparameters s'
     \<and> trainings (snd (cache_resource ?f s' ?c1)) = trainings ?c1 + 1"
  proof
    assume h: "s' \<noteq> s \<and> map_of (entries c) s' = None"
    then have "map_of (entries ?c1) s' = None"
      using cache_other_key [of s' s ?f c] by simp
    from cache_miss [OF this, of ?f]
    show "fst (cache_resource ?f s' ?c1) = fit fixed_hyperparameters s'
     \<and> trainings (snd (cache_resource ?f s' ?c1)) = trainings ?c1 + 1"
      by (simp add: fit_model_def)
  qed
  from hit fail miss show ?thesis
    unfolding train_forecast_model_def by (intro conjI)
qed

theorem model_cache_hits_and_misses_witness:
  "fst (train_forecast_model counting_fit [(Some 19358, Num 1200)] empty_cache) = Inr 1
   \<and> fst (train_forecast_model counting_fit [(Some 19358, Num 1200)]
            (snd (train_forecast_model counting_fit [(Some 19358, Num 1200)] empty_cache))) = Inr 1
   \<and> trainings (snd (train_forecast_model counting_fit [(Some 19358, Num 1200)]
            (snd (train_forecast_model counting_fit [(Some 19358, Num 1200)] empty_cache)))) = 1
   \<and> fst (train_forecast_model failing_fit [(Some 19358, Num 1200)] empty_cache)
       = Inl (OtherException ''fit failed'')
   \<and> entries (snd (train_forecast_model failing_fit [(Some 19358, Num 1200)] empty_cache)) = []
   \<and> [(Some 19358, Num 1300)] \<noteq> [(Some 19358, Num 1200)]
   \<and> map_of (entries (empty_cache :: (series, nat) cache)) [(Some 19358, Num 1300)] = None
   \<and> fst (train_forecast_model counting_fit [(Some 19358, Num 1300)]
            (snd (train_forecast_model counting_fit [(Some 19358, Num 1200)] empty_cache))) = Inr 1
   \<and> trainings (snd (train_forecast_model counting_fit [(Some 19358, Num 1300)]
            (snd (train_forecast_model counting_fit [(Some 19358, Num 1200)] empty_cache)))) = 2"
proof -
  let ?s = "[(Some 19358, Num 1200)] :: series"
  let ?s' = "[(Some 19358, Num 1300)] :: series"
  let ?c = "empty_cache :: (series, nat) cache"
  have ok: "fst (train_forecast_model counting_fit ?s ?c) = Inr 1"
    by (simp add: train_forecast_model_def cache_resource_def empty_cache_def fit_model_def counting_fit_def)
  have t1: "trainings (snd (train_forecast_model counting_fit ?s ?c)) = 1"
    by (simp add: train_forecast_model_def cache_resource_def empty_cache_def fit_model_def counting_fit_def)
  have bad: "fst (train_forecast_model failing_fit ?s ?c) = Inl (OtherException ''fit failed'')"
    by (simp add: train_forecast_model_def cache_resource_def empty_cache_def fit_model_def failing_fit_def)
  have ne: "?s' \<noteq> ?s" by simp
  have absent: "map_of (entries ?c) ?s' = None" by (simp add: empty_cache_def)
  have e0: "entries ?c = []" by (simp add: empty_cache_def)
  have f': "counting_fit fixed_hyperparameters ?s' = Inr 1" by (simp add: counting_fit_def)
  from model_cache_hits_and_misses [where fit = counting_fit and s = ?s and c = ?c and m = 1 and s' = ?s'] ok t1 ne absent f'
  have hit: "fst (train_forecast_model counting_fit ?s (snd (train_forecast_model counting_fit ?s ?c))) = Inr 1
     \<and> trainings (snd (train_forecast_model counting_fit ?s (snd (train_forecast_model counting_fit ?s ?c)))) = 1
     \<and> fst (train_forecast_model counting_fit ?s' (snd (train_forecast_model counting_fit ?s ?c))) = Inr 1
     \<and> trainings (snd (train_forecast_model counting_fit ?s' (snd (train_forecast_model counting_fit ?s ?c)))) = 2"
    by simp
  from model_cache_hits_and_misses [where fit = failing_fit and s = ?s and c = ?c and e = "OtherException ''fit failed''"] bad e0
  have kept: "entries (snd (train_forecast_model failing_fit ?s ?c)) = []" by simp
  from ok hit bad kept ne absent show ?thesis by (intro conjI) simp_all
qed

end
